theory Spec2Isabelle
  imports Complex_Main "HOL-Library.Log_Nat"
begin

section \<open>The log watcher of \<^verbatim>\<open>src/watcher.py\<close>\<close>

text \<open>
  The class \<^verbatim>\<open>AlertWatcher\<close> is embedded as a record of its attributes; its methods
  are functions that take the object and the environment (the clock, the webhook and the
  console) and return both, updated. Python integers are \<open>int\<close>. A Python float is the
  rational number it denotes; the three float operations of the source (a subtraction, a
  division and a multiplication) round their exact result to the nearest double, ties to
  even (\<open>fl\<close> below). Strings are lists of code points below 256.

  What is left out: the text of the alert messages (an alert is kept as its kind and the
  values formatted into it), the time stamps of the printed lines, the reading of the
  environment variables, the start-up alert and the start-up log lines of
  \<^verbatim>\<open>__init__\<close>, and the waiting and polling of \<^verbatim>\<open>tail_log_file\<close>. A line is either
  not JSON or a record whose fields, when present, have the types of the access log: lines
  that are JSON of another shape are outside the model.
\<close>

subsection \<open>Double-precision rounding\<close>

text \<open>
  \<open>fl x\<close> is the double nearest to \<open>x\<close>: \<open>x\<close> is scaled by a power of two into
  \<open>[2^52, 2^53)\<close>, rounded to an integer (a tie goes to the even one) and scaled back;
  \<open>floor_log2 x\<close> is the integer part of the binary logarithm of a positive \<open>x\<close>. The
  exponent is not bounded: overflow to infinity does not arise for clock readings and
  percentages, and a difference of two doubles that falls into the subnormal range is exact.
\<close>

definition round_half_even :: "rat \<Rightarrow> int" where
  "round_half_even y =
     (let f = \<lfloor>y\<rfloor>; r = y - of_int f
      in if r < 1 / 2 then f
         else if 1 / 2 < r then f + 1
         else if even f then f else f + 1)"

definition floor_log2 :: "rat \<Rightarrow> int" where
  "floor_log2 x =
     (if 1 \<le> x then int (floorlog 2 (nat \<lfloor>x\<rfloor>)) - 1
      else - int (floorlog 2 (nat (\<lceil>1 / x\<rceil> - 1))))"

definition fl :: "rat \<Rightarrow> rat" where
  "fl x =
     (if x = 0 then 0
      else let e = floor_log2 \<bar>x\<bar> - 52;
               m = round_half_even (\<bar>x\<bar> / 2 powi e)
           in sgn x * of_int m * 2 powi e)"

subsection \<open>Strings: \<^verbatim>\<open>str.split(", ")\<close>, \<^verbatim>\<open>str.strip()\<close> and \<^verbatim>\<open>int(str)\<close>\<close>

text \<open>
  \<^verbatim>\<open>s.split(", ")\<close> cuts \<open>s\<close> at every occurrence of the two characters comma, space,
  scanning from the left; it always returns at least one token.
\<close>

fun split_comma_space :: "string \<Rightarrow> string list" where
  "split_comma_space [] = [[]]"
| "split_comma_space [c] = [[c]]"
| "split_comma_space (c # d # rest) =
     (if c = CHR '','' \<and> d = CHR '' '' then [] # split_comma_space rest
      else (case split_comma_space (d # rest) of
              [] \<Rightarrow> [[c]]
            | t # ts \<Rightarrow> (c # t) # ts))"

text \<open>
  The white space of \<^verbatim>\<open>str.strip()\<close> and of \<^verbatim>\<open>int\<close> among the code points below 256:
  tab to carriage return, the four separators 28 to 31, the space, NEL (133) and the
  no-break space (160).
\<close>

definition is_space :: "char \<Rightarrow> bool" where
  "is_space c =
     (let n = (of_char c :: nat)
      in (9 \<le> n \<and> n \<le> 13) \<or> (28 \<le> n \<and> n \<le> 32) \<or> n = 133 \<or> n = 160)"

definition strip :: "string \<Rightarrow> string" where
  "strip s = rev (dropWhile is_space (rev (dropWhile is_space s)))"

definition is_digit :: "char \<Rightarrow> bool" where
  "is_digit c = (let n = (of_char c :: nat) in 48 \<le> n \<and> n \<le> 57)"

definition digit_value :: "char \<Rightarrow> int" where
  "digit_value c = int (of_char c) - 48"

text \<open>
  The digits of an integer literal: decimal digits, with single underscores allowed between
  two digits. \<open>prev\<close> tells whether the character before was a digit.
\<close>

fun parse_digits :: "bool \<Rightarrow> int \<Rightarrow> string \<Rightarrow> int option" where
  "parse_digits prev acc [] = (if prev then Some acc else None)"
| "parse_digits prev acc (c # cs) =
     (if is_digit c then parse_digits True (10 * acc + digit_value c) cs
      else if c = CHR ''_'' \<and> prev then parse_digits False acc cs
      else None)"

text \<open>
  \<^verbatim>\<open>int(s)\<close>: surrounding white space is dropped, then an optional sign and the digits.
  \<open>None\<close> is the \<^verbatim>\<open>ValueError\<close>. The interpreter's limit on the number of digits
  of a literal (a setting of recent Python versions, 4300 digits unless changed) is not
  part of the model.
\<close>

definition py_int :: "string \<Rightarrow> int option" where
  "py_int s =
     (case strip s of
        [] \<Rightarrow> None
      | c # cs \<Rightarrow>
          if c = CHR ''-'' then map_option uminus (parse_digits False 0 cs)
          else if c = CHR ''+'' then parse_digits False 0 cs
          else parse_digits False 0 (c # cs))"

subsection \<open>The watcher object and its environment\<close>

record watcher =
  slack_webhook_url :: "string option"
  initial_pool :: string
  error_rate_threshold :: rat
  window_size :: int
  alert_cooldown_sec :: int
  maintenance_mode :: bool
  last_pool :: string
  request_window :: "int list"
  last_failover_alert :: rat
  last_error_rate_alert :: rat
  last_recovery_alert :: rat
  system_degraded :: bool
  total_requests :: int
  failover_count :: int

text \<open>
  An alert is kept as its kind and the values that the source formats into the message:
  \<^item> \<open>Pool_Recovery previous_pool pool total_requests failover_count\<close>,
  \<^item> \<open>Failover_Detected previous_pool pool total_requests failover_count\<close>,
  \<^item> \<open>High_Error_Rate error_rate threshold error_count window_length last_pool total_requests\<close>,
  \<^item> \<open>System_Recovery last_pool error_rate threshold total_requests failover_count\<close>.
\<close>

datatype alert =
    Pool_Recovery string string int int
  | Failover_Detected string string int int
  | High_Error_Rate rat rat int nat string int
  | System_Recovery string rat rat int int


fun color :: "alert \<Rightarrow> string" where
  "color (Pool_Recovery _ _ _ _) = ''good''"
| "color (Failover_Detected _ _ _ _) = ''warning''"
| "color (High_Error_Rate _ _ _ _ _ _) = ''danger''"
| "color (System_Recovery _ _ _ _ _) = ''good''"

text \<open>The lines that the methods below print through \<^verbatim>\<open>log\<close>.\<close>

datatype log_line =
    Log_Maintenance_Suppressed alert
  | Log_Alert alert
  | Log_Slack_Sent alert
  | Log_Slack_Failed alert
  | Log_Recovery_Cooldown string string
  | Log_Failover_Cooldown string string
  | Log_System_Recovery_Cooldown
  | Log_Auto_Disable_Maintenance

text \<open>
  The environment: \<open>clock n\<close> is the value of the \<open>n\<close>-th call of \<^verbatim>\<open>time.time()\<close> and
  \<open>ticks\<close> counts the calls made so far (nothing is assumed about the readings, not even
  that they increase); \<open>posted\<close> lists the alerts handed to \<^verbatim>\<open>requests.post\<close>, in order,
  and \<open>post_ok n\<close> tells whether the \<open>n\<close>-th request succeeds; \<open>console\<close> lists the lines
  printed.
\<close>

record world =
  clock :: "nat \<Rightarrow> rat"
  ticks :: nat
  post_ok :: "nat \<Rightarrow> bool"
  posted :: "alert list"
  console :: "log_line list"

definition time_time :: "world \<Rightarrow> rat \<times> world" where
  "time_time w = (clock w (ticks w), w\<lparr>ticks := Suc (ticks w)\<rparr>)"

text \<open>The function \<^verbatim>\<open>log\<close> of the source, which prints one line.\<close>

definition log_msg :: "log_line \<Rightarrow> world \<Rightarrow> world" where
  "log_msg l w = w\<lparr>console := console w @ [l]\<rparr>"

subsection \<open>Sending an alert\<close>

text \<open>
  \<^verbatim>\<open>send_slack_alert\<close>: in maintenance mode the alert is only logged as suppressed; without
  a webhook URL it is printed; otherwise it is posted, and a failure of the request is
  caught and logged. The result is the method's return value.
\<close>

definition send_slack_alert :: "watcher \<Rightarrow> alert \<Rightarrow> world \<Rightarrow> bool \<times> world" where
  "send_slack_alert self a w =
     (if maintenance_mode self then (True, log_msg (Log_Maintenance_Suppressed a) w)
      else if slack_webhook_url self = None \<or> slack_webhook_url self = Some [] then
        (True, log_msg (Log_Alert a) w)
      else
        (let ok = post_ok w (length (posted w));
             w1 = w\<lparr>posted := posted w @ [a]\<rparr>
         in if ok then (True, log_msg (Log_Slack_Sent a) w1)
            else (False, log_msg (Log_Slack_Failed a) w1)))"

subsection \<open>The cooldown check\<close>

definition check_cooldown :: "watcher \<Rightarrow> rat \<Rightarrow> world \<Rightarrow> bool \<times> world" where
  "check_cooldown self last_alert_time w =
     (let (current_time, w1) = time_time w;
          time_since_last_alert = fl (current_time - last_alert_time)
      in if of_int (alert_cooldown_sec self) \<le> time_since_last_alert then (True, w1)
         else (False, w1))"

subsection \<open>Failover detection\<close>

definition detect_failover :: "string \<Rightarrow> watcher \<Rightarrow> world \<Rightarrow> bool \<times> watcher \<times> world" where
  "detect_failover pool self w =
     (if pool = [] then (False, self, w)
      else if pool = initial_pool self \<and> last_pool self \<noteq> initial_pool self then
        (let previous_pool = last_pool self;
             self1 = self\<lparr>last_pool := pool, failover_count := failover_count self + 1\<rparr>;
             (ok, w1) = check_cooldown self1 (last_recovery_alert self1) w
         in if \<not> ok then (False, self1, log_msg (Log_Recovery_Cooldown previous_pool pool) w1)
            else
              (let (self2, w2) =
                     (if maintenance_mode self1
                      then (self1\<lparr>maintenance_mode := False\<rparr>,
                            log_msg Log_Auto_Disable_Maintenance w1)
                      else (self1, w1));
                   (sent, w3) =
                     send_slack_alert self2
                       (Pool_Recovery previous_pool pool (total_requests self2)
                          (failover_count self2)) w2;
                   (now, w4) = time_time w3
               in (True, self2\<lparr>last_recovery_alert := now\<rparr>, w4)))
      else if pool = last_pool self then (False, self, w)
      else
        (let previous_pool = last_pool self;
             self1 = self\<lparr>last_pool := pool, failover_count := failover_count self + 1\<rparr>;
             (ok, w1) = check_cooldown self1 (last_failover_alert self1) w
         in if \<not> ok then (False, self1, log_msg (Log_Failover_Cooldown previous_pool pool) w1)
            else
              (let (sent, w2) =
                     send_slack_alert self1
                       (Failover_Detected previous_pool pool (total_requests self1)
                          (failover_count self1)) w1;
                   (now, w3) = time_time w2
               in (True, self1\<lparr>last_failover_alert := now\<rparr>, w3))))"

subsection \<open>The error rate\<close>

text \<open>The counting loop \<^verbatim>\<open>for status in self.request_window\<close>, with its counter.\<close>

fun count_errors :: "int list \<Rightarrow> int \<Rightarrow> int" where
  "count_errors [] error_count = error_count"
| "count_errors (status # rest) error_count =
     count_errors rest (if 500 \<le> status then error_count + 1 else error_count)"

definition calculate_error_rate :: "watcher \<Rightarrow> rat" where
  "calculate_error_rate self =
     (if length (request_window self) = 0 then 0
      else
        (let error_count = count_errors (request_window self) 0;
             total_requests = int (length (request_window self));
             error_rate = fl (fl (of_int error_count / of_int total_requests) * 100)
         in error_rate))"

definition check_error_rate :: "watcher \<Rightarrow> world \<Rightarrow> bool \<times> watcher \<times> world" where
  "check_error_rate self w =
     (let minimum_requests = (if window_size self < 50 then window_size self else 50)
      in if int (length (request_window self)) < minimum_requests then (False, self, w)
         else
           (let error_rate = calculate_error_rate self
            in if error_rate_threshold self < error_rate then
                 (let (ok, w1) = check_cooldown self (last_error_rate_alert self) w
                  in if \<not> ok then (False, self, w1)
                     else
                       (let (now, w2) = time_time w1;
                            self1 = self\<lparr>last_error_rate_alert := now, system_degraded := True\<rparr>;
                            error_count = count_errors (request_window self1) 0;
                            (sent, w3) =
                              send_slack_alert self1
                                (High_Error_Rate error_rate (error_rate_threshold self1)
                                   error_count (length (request_window self1))
                                   (last_pool self1) (total_requests self1)) w2
                        in (True, self1, w3)))
               else if system_degraded self then
                 (let (ok, w1) = check_cooldown self (last_recovery_alert self) w
                  in if \<not> ok then (False, self, log_msg Log_System_Recovery_Cooldown w1)
                     else
                       (let self1 = self\<lparr>system_degraded := False\<rparr>;
                            (self2, w2) =
                              (if maintenance_mode self1
                               then (self1\<lparr>maintenance_mode := False\<rparr>,
                                     log_msg Log_Auto_Disable_Maintenance w1)
                               else (self1, w1));
                            (sent, w3) =
                              send_slack_alert self2
                                (System_Recovery (last_pool self2) error_rate
                                   (error_rate_threshold self2) (total_requests self2)
                                   (failover_count self2)) w2;
                            (now, w4) = time_time w3
                        in (True, self2\<lparr>last_recovery_alert := now\<rparr>, w4)))
               else (False, self, w)))"

subsection \<open>Processing one line\<close>

text \<open>
  A line that parses as JSON is the record of its three fields \<^verbatim>\<open>status\<close>,
  \<^verbatim>\<open>pool\<close> and \<^verbatim>\<open>upstream_status\<close>; a field is \<open>None\<close> when the key is absent,
  and \<^verbatim>\<open>log_entry.get\<close> then yields the default. The fields have the types that the
  access log gives them: an integer status and two strings.
\<close>

record log_entry =
  status_field :: "int option"
  pool_field :: "string option"
  upstream_status_field :: "string option"

definition get_default :: "'a option \<Rightarrow> 'a \<Rightarrow> 'a" where
  "get_default field d = (case field of None \<Rightarrow> d | Some v \<Rightarrow> v)"

text \<open>
  The loop over the upstream tokens: a token that \<^verbatim>\<open>int\<close> rejects is passed over, the
  first code of 500 or more ends the loop.
\<close>

fun has_upstream_error :: "string list \<Rightarrow> bool" where
  "has_upstream_error [] = False"
| "has_upstream_error (us # rest) =
     (case py_int (strip us) of
        Some us_code \<Rightarrow> if 500 \<le> us_code then True else has_upstream_error rest
      | None \<Rightarrow> has_upstream_error rest)"

text \<open>The status that \<^verbatim>\<open>process_log_line\<close> appends to the window for an entry.\<close>

definition effective_status :: "log_entry \<Rightarrow> int" where
  "effective_status e =
     (let status = get_default (status_field e) 0;
          upstream_status_str = get_default (upstream_status_field e) [];
          has_error =
            (if upstream_status_str \<noteq> [] then
               has_upstream_error (split_comma_space upstream_status_str)
             else False)
      in if has_error then 502 else status)"

text \<open>The slice \<^verbatim>\<open>xs[i:]\<close>: a negative start counts from the end.\<close>

definition slice_from :: "int \<Rightarrow> 'a list \<Rightarrow> 'a list" where
  "slice_from i xs =
     (if i < 0 then drop (nat (int (length xs) + i)) xs else drop (nat i) xs)"

text \<open>
  Appending an outcome and keeping the last \<^verbatim>\<open>window_size\<close> of them, as
  \<^verbatim>\<open>process_log_line\<close> does in place.
\<close>

definition push_window :: "watcher \<Rightarrow> int \<Rightarrow> watcher" where
  "push_window self outcome =
     (let self1 = self\<lparr>request_window := request_window self @ [outcome]\<rparr>
      in if window_size self1 < int (length (request_window self1))
         then self1\<lparr>request_window := slice_from (- window_size self1) (request_window self1)\<rparr>
         else self1)"

text \<open>
  \<^verbatim>\<open>process_log_line\<close>: the argument is \<open>None\<close> for a line that is not JSON, which is
  skipped before anything is counted.
\<close>

definition process_log_line :: "log_entry option \<Rightarrow> watcher \<Rightarrow> world \<Rightarrow> watcher \<times> world" where
  "process_log_line line self w =
     (case line of
        None \<Rightarrow> (self, w)
      | Some log_entry \<Rightarrow>
          (let pool = get_default (pool_field log_entry) [];
               self1 = self\<lparr>total_requests := total_requests self + 1\<rparr>;
               self2 = push_window self1 (effective_status log_entry);
               (self3, w3) =
                 (if pool \<noteq> [] then
                    (let (r, s, w') = detect_failover pool self2 w in (s, w'))
                  else (self2, w));
               (r, self4, w4) = check_error_rate self3 w3
           in (self4, w4)))"


text \<open>The read loop of \<^verbatim>\<open>tail_log_file\<close> on the lines that have arrived so far.\<close>

fun process_lines :: "log_entry option list \<Rightarrow> watcher \<Rightarrow> world \<Rightarrow> watcher \<times> world" where
  "process_lines [] self w = (self, w)"
| "process_lines (line # rest) self w =
     (let (self1, w1) = process_log_line line self w in process_lines rest self1 w1)"

text \<open>The attributes as \<^verbatim>\<open>__init__\<close> sets them from the configuration it has read.\<close>

definition init_watcher ::
  "string option \<Rightarrow> string \<Rightarrow> rat \<Rightarrow> int \<Rightarrow> int \<Rightarrow> bool \<Rightarrow> watcher" where
  "init_watcher url active_pool threshold wsize cooldown maintenance =
     \<lparr> slack_webhook_url = url, initial_pool = active_pool,
       error_rate_threshold = threshold, window_size = wsize,
       alert_cooldown_sec = cooldown, maintenance_mode = maintenance,
       last_pool = active_pool, request_window = [],
       last_failover_alert = 0, last_error_rate_alert = 0, last_recovery_alert = 0,
       system_degraded = False, total_requests = 0, failover_count = 0 \<rparr>"

subsection \<open>Observations\<close>

text \<open>
  Every call of \<^verbatim>\<open>send_slack_alert\<close> prints exactly one line that carries its alert, and
  nothing else prints such a line: \<open>dispatched w\<close> lists the alerts that were passed to
  \<^verbatim>\<open>send_slack_alert\<close> so far, whatever became of them.
\<close>

fun alert_of_line :: "log_line \<Rightarrow> alert option" where
  "alert_of_line (Log_Maintenance_Suppressed a) = Some a"
| "alert_of_line (Log_Alert a) = Some a"
| "alert_of_line (Log_Slack_Sent a) = Some a"
| "alert_of_line (Log_Slack_Failed a) = Some a"
| "alert_of_line _ = None"

definition dispatched :: "world \<Rightarrow> alert list" where
  "dispatched w = List.map_filter alert_of_line (console w)"


text \<open>
  The pushed outcomes of a sequence of lines, in arrival order, and the last \<open>n\<close>
  elements of a list.
\<close>

definition last_n :: "nat \<Rightarrow> 'a list \<Rightarrow> 'a list" where
  "last_n n xs = drop (length xs - n) xs"

definition outcomes :: "log_entry option list \<Rightarrow> int list" where
  "outcomes lines = List.map_filter (map_option effective_status) lines"

subsection \<open>Concrete instances\<close>

text \<open>
  A fresh environment with the given clock and a webhook that accepts every request, and
  the one whose clock always reads 1000.
\<close>

definition world_at :: "(nat \<Rightarrow> rat) \<Rightarrow> world" where
  "world_at c = \<lparr> clock = c, ticks = 0, post_ok = (\<lambda>n. True), posted = [], console = [] \<rparr>"

definition world_1000 :: world where
  "world_1000 = world_at (\<lambda>n. 1000)"

text \<open>
  The watcher as constructed with the defaults of the source (pool \<open>blue\<close>, threshold 2,
  window 200, cooldown 300) and a webhook; the same watcher while the backup pool is
  serving; and that one in maintenance mode.
\<close>

definition blue_watcher :: watcher where
  "blue_watcher = init_watcher (Some ''https://hooks.example/T'') ''blue'' 2 200 300 False"

definition backup_watcher :: watcher where
  "backup_watcher = blue_watcher\<lparr>last_pool := ''backup''\<rparr>"

definition maintenance_watcher :: watcher where
  "maintenance_watcher = backup_watcher\<lparr>maintenance_mode := True\<rparr>"

text \<open>
  Two watchers with a window of one outcome: one whose window holds an error, and one that
  is marked degraded while its window holds a success. A watcher with a window of two
  outcomes. A watcher with threshold 7 whose window holds 7 errors among 100 outcomes.
\<close>

definition failing_watcher :: watcher where
  "failing_watcher = blue_watcher\<lparr>window_size := 1, request_window := [500]\<rparr>"

definition degraded_watcher :: watcher where
  "degraded_watcher =
     blue_watcher\<lparr>window_size := 1, request_window := [200], system_degraded := True\<rparr>"



definition small_watcher :: watcher where
  "small_watcher = blue_watcher\<lparr>window_size := 2\<rparr>"

definition seven_percent_watcher :: watcher where
  "seven_percent_watcher =
     blue_watcher\<lparr>error_rate_threshold := 7,
                   request_window := replicate 7 500 @ replicate 93 200\<rparr>"

text \<open>
  Lines of the access log: a failed request served by \<open>blue\<close>, a successful one served
  by \<open>blue\<close>, and a successful one served by \<open>green\<close>. Two records with status 200: one
  whose upstream list is \<^verbatim>\<open>502, 200\<close> (a retry that succeeded), and one that writes the
  same list without the space.
\<close>

definition error_line :: "log_entry option" where
  "error_line = Some \<lparr> status_field = Some 500, pool_field = Some ''blue'',
                       upstream_status_field = Some ''500'' \<rparr>"

definition ok_line :: "log_entry option" where
  "ok_line = Some \<lparr> status_field = Some 200, pool_field = Some ''blue'',
                    upstream_status_field = Some ''200'' \<rparr>"



definition retried_entry :: log_entry where
  "retried_entry = \<lparr> status_field = Some 200, pool_field = Some ''blue'',
                       upstream_status_field = Some ''502, 200'' \<rparr>"

definition comma_entry :: log_entry where
  "comma_entry = \<lparr> status_field = Some 200, pool_field = Some ''blue'',
                     upstream_status_field = Some ''502,200'' \<rparr>"

text \<open>
  A run of four lines on a new watcher with a window of one outcome, the clock advancing by
  one second at each reading: a failed and a successful request (a first episode), then a
  failed request again (the onset of a second episode) and a successful one (its end).
\<close>

definition episode_watcher :: watcher where
  "episode_watcher = init_watcher (Some ''https://hooks.example/T'') ''blue'' 2 1 300 False"

definition episode_world :: world where
  "episode_world = world_at (\<lambda>n. 1000 + of_nat n)"

definition first_episode :: "watcher \<times> world" where
  "first_episode = process_lines [error_line, ok_line] episode_watcher episode_world"

definition second_onset :: "watcher \<times> world" where
  "second_onset = process_log_line error_line (fst first_episode) (snd first_episode)"

definition second_clear :: "watcher \<times> world" where
  "second_clear = process_log_line ok_line (fst second_onset) (snd second_onset)"

section \<open>Properties of the rounding\<close>

lemma floorlog2_bounds_rat:
  assumes "0 < n"
  shows "(2::rat) ^ (floorlog 2 n - 1) \<le> of_nat n" and "of_nat n + 1 \<le> (2::rat) ^ floorlog 2 n"
    and "0 < floorlog 2 n"
proof -
  have b: "2 ^ (floorlog 2 n - 1) \<le> n" "n < 2 ^ floorlog 2 n"
    using floorlog_bounds [of n 2] assms by simp_all
  from b(1) have "of_nat (2 ^ (floorlog 2 n - 1)) \<le> (of_nat n :: rat)"
    by (simp only: of_nat_le_iff)
  then show "(2::rat) ^ (floorlog 2 n - 1) \<le> of_nat n" by simp
  from b(2) have "Suc n \<le> 2 ^ floorlog 2 n" by simp
  then have "of_nat (Suc n) \<le> (of_nat (2 ^ floorlog 2 n) :: rat)"
    by (simp only: of_nat_le_iff)
  then show "of_nat n + 1 \<le> (2::rat) ^ floorlog 2 n" by simp
  show "0 < floorlog 2 n" using assms by (simp add: floorlog_def)
qed

lemma floor_log2_bounds:
  assumes "0 < x"
  shows "2 powi floor_log2 x \<le> x" and "x < 2 powi (floor_log2 x + 1)"
proof -
  have "2 powi floor_log2 x \<le> x \<and> x < 2 powi (floor_log2 x + 1)"
  proof (cases "1 \<le> x")
    case True
    define n where "n = nat \<lfloor>x\<rfloor>"
    define b where "b = floorlog 2 n"
    have n1: "1 \<le> \<lfloor>x\<rfloor>" using True by simp
    then have npos: "0 < n" by (simp add: n_def)
    have nx: "of_nat n \<le> x" "x < of_nat n + 1"
      using n1 by (simp_all add: n_def) linarith+
    note fb = floorlog2_bounds_rat [OF npos, folded b_def]
    have e: "floor_log2 x = int b - 1" using True by (simp add: floor_log2_def n_def b_def)
    have "int b - 1 = int (b - 1)" using fb(3) by simp
    then have p1: "(2::rat) powi (int b - 1) = 2 ^ (b - 1)" by (simp only: power_int_of_nat)
    have p2: "(2::rat) powi (int b - 1 + 1) = 2 ^ b" by simp
    show ?thesis unfolding e p1 p2 using fb nx by linarith
  next
    case False
    define y where "y = 1 / x"
    define n where "n = nat (\<lceil>y\<rceil> - 1)"
    define b where "b = floorlog 2 n"
    have y1: "1 < y" using False assms by (simp add: y_def)
    then have c2: "2 \<le> \<lceil>y\<rceil>" by linarith
    then have npos: "0 < n" by (simp add: n_def)
    have ny: "of_nat n < y" "y \<le> of_nat n + 1"
      using c2 by (simp_all add: n_def) linarith+
    note fb = floorlog2_bounds_rat [OF npos, folded b_def]
    have e: "floor_log2 x = - int b" using False by (simp add: floor_log2_def n_def b_def y_def)
    have p1: "(2::rat) powi (- int b) = 1 / 2 ^ b" by (simp add: power_int_minus_divide)
    have "- int b + 1 = - int (b - 1)" using fb(3) by simp
    then have p2: "(2::rat) powi (- int b + 1) = 1 / 2 ^ (b - 1)"
      by (simp only: power_int_minus_divide power_int_of_nat)
    have xy: "x = 1 / y" using assms by (simp add: y_def)
    have A: "y \<le> 2 ^ b" using fb ny by linarith
    have B: "2 ^ (b - 1) < y" using fb ny by linarith
    have "1 / 2 ^ b \<le> 1 / y" using A y1 by (simp add: frac_le)
    moreover have "1 / y < 1 / 2 ^ (b - 1)" using B by (simp add: frac_less2)
    ultimately have "1 / 2 ^ b \<le> x \<and> x < 1 / 2 ^ (b - 1)" using xy by simp
    then show ?thesis by (simp only: e p1 p2)
  qed
  then show "2 powi floor_log2 x \<le> x" and "x < 2 powi (floor_log2 x + 1)" by simp_all
qed

lemma floor_log2_unique:
  assumes "2 powi k \<le> x" and "x < 2 powi (k + 1)"
  shows "floor_log2 x = k"
proof -
  have "0 < (2::rat) powi k" by simp
  with assms have x: "0 < x" by linarith
  note b = floor_log2_bounds [OF x]
  have "(2::rat) powi k < 2 powi (floor_log2 x + 1)" using assms b by linarith
  then have 1: "k < floor_log2 x + 1"
    using power_int_increasing [of "floor_log2 x + 1" k "2::rat"] by (cases "k < floor_log2 x + 1") auto
  have "(2::rat) powi floor_log2 x < 2 powi (k + 1)" using assms b by linarith
  then have 2: "floor_log2 x < k + 1"
    using power_int_increasing [of "k + 1" "floor_log2 x" "2::rat"] by (cases "floor_log2 x < k + 1") auto
  from 1 2 show ?thesis by simp
qed

lemma round_half_even_error: "\<bar>of_int (round_half_even y) - y\<bar> \<le> 1 / 2"
proof -
  have "of_int \<lfloor>y\<rfloor> \<le> y" "y < of_int \<lfloor>y\<rfloor> + 1" by linarith+
  then show ?thesis by (auto simp: round_half_even_def Let_def)
qed

lemma round_half_even_unique:
  assumes "\<bar>y - of_int m\<bar> < 1 / 2"
  shows "round_half_even y = m"
proof -
  have "\<bar>of_int (round_half_even y) - (of_int m :: rat)\<bar> < 1"
    using round_half_even_error [of y] assms by linarith
  then have "\<bar>(of_int (round_half_even y - m) :: rat)\<bar> < 1" by simp
  then have "\<bar>round_half_even y - m\<bar> < 1"
    by (metis of_int_abs of_int_less_1_iff)
  then show ?thesis by simp
qed

lemma round_half_even_of_int: "round_half_even (of_int m) = m"
  by (rule round_half_even_unique) simp

lemma fl_eqI:
  assumes "2 ^ 52 \<le> x / 2 powi e" and "x / 2 powi e < 2 ^ 53"
    and "\<bar>x / 2 powi e - of_int m\<bar> < 1 / 2"
  shows "fl x = of_int m * 2 powi e"
proof -
  have p: "0 < (2::rat) powi e" by simp
  have "(2::rat) powi (e + 52) = 2 powi e * 2 ^ 52" by (simp add: power_int_add)
  moreover have "(2::rat) powi (e + 52 + 1) = 2 powi e * 2 ^ 53" by (simp add: power_int_add)
  ultimately have "2 powi (e + 52) \<le> x" "x < 2 powi (e + 52 + 1)"
    using assms(1,2) p by (simp_all add: pos_le_divide_eq pos_divide_less_eq mult.commute)
  then have k: "floor_log2 x = e + 52" by (rule floor_log2_unique)
  have "(0::rat) < 2 ^ 52" by simp
  with assms(1) have "0 < x / 2 powi e" by linarith
  then have x: "0 < x" using p by (simp add: zero_less_divide_iff)
  then show ?thesis
    using round_half_even_unique [OF assms(3)] by (simp add: fl_def k)
qed

lemma fl_zero: "fl 0 = 0"
  by (simp add: fl_def)

lemma fl_minus: "fl (- x) = - fl x"
  by (simp add: fl_def Let_def)

lemma fl_of_int_pos:
  assumes "0 < n" and "n < 2 ^ 53"
  shows "fl (of_int n) = of_int n"
proof -
  define k where "k = floor_log2 (of_int n)"
  have x: "(0::rat) < of_int n" using assms(1) by simp
  note b = floor_log2_bounds [OF x, folded k_def]
  have "(of_int n :: rat) < 2 ^ 53" using assms(2) by (metis of_int_less_iff of_int_numeral of_int_power)
  then have "(2::rat) powi k < 2 powi 53" using b(1) by simp
  then have k52: "k \<le> 52"
    using power_int_increasing [of 53 k "2::rat"] by (cases "k \<le> 52") auto
  define j where "j = nat (52 - k)"
  have e: "k - 52 = - int j" using k52 by (simp add: j_def)
  have s: "(of_int n :: rat) / 2 powi (k - 52) = of_int (n * 2 ^ j)"
    by (simp add: e power_int_minus_divide)
  have "round_half_even (of_int n / 2 powi (k - 52)) = n * 2 ^ j"
    unfolding s by (rule round_half_even_of_int)
  then have "fl (of_int n) = of_int (n * 2 ^ j) * 2 powi (k - 52)"
    using x by (simp add: fl_def k_def [symmetric])
  then show ?thesis by (simp add: e power_int_minus_divide)
qed

lemma fl_of_int:
  assumes "\<bar>n\<bar> < 2 ^ 53"
  shows "fl (of_int n) = of_int n"
proof -
  consider "n = 0" | "0 < n" | "n < 0" by linarith
  then show ?thesis
  proof cases
    case 1 then show ?thesis by (simp add: fl_zero)
  next
    case 2 then show ?thesis using assms by (simp add: fl_of_int_pos)
  next
    case 3
    then have "fl (of_int (- n)) = of_int (- n)" using assms by (intro fl_of_int_pos) simp_all
    then show ?thesis using fl_minus [of "of_int n"] by simp
  qed
qed

lemma fl_numeral: "(numeral v :: int) < 2 ^ 53 \<Longrightarrow> fl (numeral v) = numeral v"
  using fl_of_int [of "numeral v"] by simp

lemma fl_neg_numeral: "(numeral v :: int) < 2 ^ 53 \<Longrightarrow> fl (- numeral v) = - numeral v"
  using fl_of_int [of "- numeral v"] by simp

lemma fl_one: "fl 1 = 1"
  using fl_of_int [of 1] by simp

lemma fl_error:
  assumes "0 \<le> x"
  shows "\<bar>fl x - x\<bar> \<le> x / 2 ^ 53"
proof (cases "x = 0")
  case True
  then show ?thesis by (simp add: fl_zero)
next
  case False
  with assms have x: "0 < x" by simp
  define e where "e = floor_log2 x - 52"
  define y where "y = x / 2 powi e"
  define m where "m = round_half_even y"
  have p: "0 < (2::rat) powi e" by simp
  have f: "fl x = of_int m * 2 powi e"
    using x by (simp add: fl_def e_def y_def m_def Let_def)
  have xy: "x = y * 2 powi e" by (simp add: y_def)
  have "fl x - x = (of_int m - y) * 2 powi e"
    by (simp add: f xy [symmetric] algebra_simps)
  then have "\<bar>fl x - x\<bar> = \<bar>of_int m - y\<bar> * 2 powi e"
    using p by (simp add: abs_mult)
  also have "\<dots> \<le> 1 / 2 * 2 powi e"
    using round_half_even_error [of y] p unfolding m_def by (intro mult_right_mono) simp_all
  finally have 1: "\<bar>fl x - x\<bar> \<le> 2 powi e / 2" by simp
  have "(2::rat) powi floor_log2 x = 2 powi e * 2 ^ 52"
    by (simp add: e_def power_int_diff)
  then have "2 powi e * 2 ^ 52 \<le> x" using floor_log2_bounds(1) [OF x] by simp
  then have "2 powi e / 2 \<le> x / 2 ^ 53" by simp
  with 1 show ?thesis by linarith
qed

lemma fl_seven_hundredths: "fl (7 / 100) = 1261007895663739 / 18014398509481984"
proof -
  have "fl (7 / 100) = of_int 5044031582654956 * 2 powi (- 56)"
    by (rule fl_eqI) (simp_all add: power_int_minus)
  then show ?thesis by (simp add: power_int_minus)
qed

lemma fl_seven_hundredths_100:
  "fl (1261007895663739 / 18014398509481984 * 100) = 7881299347898369 / 1125899906842624"
proof -
  have "fl (1261007895663739 / 18014398509481984 * 100)
          = of_int 7881299347898369 * 2 powi (- 50)"
    by (rule fl_eqI) (simp_all add: power_int_minus)
  then show ?thesis by (simp add: power_int_minus)
qed

lemma fl_two_steps:
  assumes "0 \<le> q"
  shows "\<bar>fl (fl q * 100) - 100 * q\<bar> \<le> 100 * q / 2 ^ 51"
proof -
  define a where "a = fl q"
  define b where "b = fl (a * 100)"
  have 1: "\<bar>a - q\<bar> \<le> q / 9007199254740992"
    unfolding a_def using fl_error [OF assms] by simp
  with assms have "0 \<le> a * 100" by linarith
  then have 2: "\<bar>b - a * 100\<bar> \<le> a * 100 / 9007199254740992"
    unfolding b_def using fl_error [of "a * 100"] by simp
  from 1 2 assms have "\<bar>b - 100 * q\<bar> \<le> 100 * q / 2251799813685248" by linarith
  then show ?thesis by (simp add: a_def b_def)
qed

section \<open>The environment\<close>

lemma check_cooldown_eq:
  "check_cooldown self t w =
     (of_int (alert_cooldown_sec self) \<le> fl (clock w (ticks w) - t), w\<lparr>ticks := Suc (ticks w)\<rparr>)"
  by (simp add: check_cooldown_def time_time_def)

lemma dispatched_log_msg:
  "dispatched (log_msg l w) = dispatched w @ (case alert_of_line l of None \<Rightarrow> [] | Some a \<Rightarrow> [a])"
  by (simp add: dispatched_def log_msg_def List.map_filter_def split: option.splits)

lemma dispatched_ticks [simp]: "dispatched (w\<lparr>ticks := n\<rparr>) = dispatched w"
  by (simp add: dispatched_def)

lemma dispatched_posted [simp]: "dispatched (w\<lparr>posted := n\<rparr>) = dispatched w"
  by (simp add: dispatched_def)

lemma log_msg_fields:
  "console (log_msg l w) = console w @ [l]"
  "clock (log_msg l w) = clock w"
  "ticks (log_msg l w) = ticks w"
  "post_ok (log_msg l w) = post_ok w"
  "posted (log_msg l w) = posted w"
  by (simp_all add: log_msg_def)

lemma send_slack_alert_dispatched:
  "dispatched (snd (send_slack_alert self a w)) = dispatched w @ [a]"
  by (simp add: send_slack_alert_def dispatched_log_msg Let_def)

lemma send_slack_alert_clock:
  "clock (snd (send_slack_alert self a w)) = clock w"
  "ticks (snd (send_slack_alert self a w)) = ticks w"
  "post_ok (snd (send_slack_alert self a w)) = post_ok w"
  by (simp_all add: send_slack_alert_def log_msg_def Let_def)

lemma send_slack_alert_console:
  "console (snd (send_slack_alert self a w)) = console w @
     [if maintenance_mode self then Log_Maintenance_Suppressed a
      else if slack_webhook_url self = None \<or> slack_webhook_url self = Some [] then Log_Alert a
      else if post_ok w (length (posted w)) then Log_Slack_Sent a else Log_Slack_Failed a]"
  by (simp add: send_slack_alert_def log_msg_def Let_def)

lemma send_slack_alert_posted:
  "posted (snd (send_slack_alert self a w)) =
     (if maintenance_mode self \<or> slack_webhook_url self = None \<or> slack_webhook_url self = Some []
      then posted w else posted w @ [a])"
  by (simp add: send_slack_alert_def log_msg_def Let_def)

lemmas unfold_methods =
  detect_failover_def check_error_rate_def check_cooldown_eq time_time_def Let_def case_prod_beta
  send_slack_alert_dispatched send_slack_alert_clock send_slack_alert_posted
  send_slack_alert_console dispatched_log_msg log_msg_fields

lemmas string_eval = py_int_def strip_def is_space_def is_digit_def digit_value_def

lemmas run_defs = process_log_line_def push_window_def slice_from_def effective_status_def
  get_default_def calculate_error_rate_def error_line_def ok_line_def

lemmas example_defs =
  blue_watcher_def backup_watcher_def failing_watcher_def degraded_watcher_def
  init_watcher_def world_at_def

lemma calculate_error_rate_examples:
  "calculate_error_rate failing_watcher = 100"
  "calculate_error_rate degraded_watcher = 0"
  by (simp_all add: calculate_error_rate_def example_defs fl_one fl_zero fl_numeral)

section \<open>The minimum sample count\<close>

text \<open>
  C7: in every state whose window holds fewer than \<open>min 50 window_size\<close> outcomes,
  \<^verbatim>\<open>check_error_rate\<close> reports no event and leaves the object and the environment as they
  are: no attribute changes, the clock is not read, nothing is printed and no alert is sent.
\<close>

theorem check_error_rate_below_minimum:
  assumes "int (length (request_window self)) < min 50 (window_size self)"
  shows "check_error_rate self w = (False, self, w)"
  using assms by (simp add: check_error_rate_def min_def Let_def split: if_splits)

theorem check_error_rate_below_minimum_witness:
  "int (length (request_window blue_watcher)) < min 50 (window_size blue_watcher)
   \<and> check_error_rate blue_watcher (world_at (\<lambda>n. 0))
       = (False, blue_watcher, world_at (\<lambda>n. 0))"
proof -
  have h: "int (length (request_window blue_watcher)) < min 50 (window_size blue_watcher)"
    by (simp add: blue_watcher_def init_watcher_def)
  from check_error_rate_below_minimum [OF h] h show ?thesis by blast
qed

section \<open>Failover detection\<close>

text \<open>
  C3: when a non-empty incoming pool label equals \<open>initial_pool\<close> and the current pool
  (\<open>last_pool\<close>) differs from it, \<^verbatim>\<open>detect_failover\<close> treats the record as a recovery,
  whatever the current pool is: the current pool becomes the initial pool, the count goes up
  by one, the event fires exactly when the recovery cooldown is satisfied, the only alert
  that can be dispatched is the pool-recovery alert, a suppressed event is logged as a
  recovery, and the failover timestamp is not touched.
\<close>

theorem detect_failover_recovery_precedence:
  assumes "pool \<noteq> []" and "pool = initial_pool self" and "last_pool self \<noteq> initial_pool self"
  shows "case detect_failover pool self w of (r, self', w') \<Rightarrow>
           r = fst (check_cooldown self (last_recovery_alert self) w)
         \<and> last_pool self' = initial_pool self
         \<and> failover_count self' = failover_count self + 1
         \<and> last_failover_alert self' = last_failover_alert self
         \<and> dispatched w' = dispatched w @
               (if r then [Pool_Recovery (last_pool self) pool (total_requests self)
                             (failover_count self + 1)] else [])
         \<and> (\<not> r \<longrightarrow> console w' = console w @ [Log_Recovery_Cooldown (last_pool self) pool])"
  using assms
  by (auto simp: detect_failover_def check_cooldown_eq time_time_def Let_def case_prod_beta
      send_slack_alert_dispatched send_slack_alert_clock dispatched_log_msg log_msg_fields
      split: if_splits)

theorem detect_failover_recovery_precedence_witness:
  "''blue'' \<noteq> [] \<and> ''blue'' = initial_pool backup_watcher
   \<and> last_pool backup_watcher \<noteq> initial_pool backup_watcher
   \<and> (case detect_failover ''blue'' backup_watcher (world_at (\<lambda>n. 1000)) of (r, self', w') \<Rightarrow>
           r = fst (check_cooldown backup_watcher (last_recovery_alert backup_watcher)
                      (world_at (\<lambda>n. 1000)))
         \<and> last_pool self' = initial_pool backup_watcher
         \<and> failover_count self' = failover_count backup_watcher + 1
         \<and> last_failover_alert self' = last_failover_alert backup_watcher
         \<and> dispatched w' = dispatched (world_at (\<lambda>n. 1000)) @
               (if r then [Pool_Recovery (last_pool backup_watcher) ''blue''
                             (total_requests backup_watcher)
                             (failover_count backup_watcher + 1)] else [])
         \<and> (\<not> r \<longrightarrow> console w' = console (world_at (\<lambda>n. 1000)) @
                        [Log_Recovery_Cooldown (last_pool backup_watcher) ''blue'']))
   \<and> posted (snd (snd (detect_failover ''blue'' backup_watcher (world_at (\<lambda>n. 1000)))))
       = [Pool_Recovery ''backup'' ''blue'' 0 1]"
proof -
  have h1: "''blue'' \<noteq> []" by simp
  have h2: "''blue'' = initial_pool backup_watcher"
    by (simp add: backup_watcher_def blue_watcher_def init_watcher_def)
  have h3: "last_pool backup_watcher \<noteq> initial_pool backup_watcher"
    by (simp add: backup_watcher_def blue_watcher_def init_watcher_def)
  note c = detect_failover_recovery_precedence [OF h1 h2 h3, of "world_at (\<lambda>n. 1000)"]
  have e: "posted (snd (snd (detect_failover ''blue'' backup_watcher (world_at (\<lambda>n. 1000)))))
             = [Pool_Recovery ''backup'' ''blue'' 0 1]"
    by (simp add: example_defs detect_failover_def check_cooldown_eq time_time_def
        send_slack_alert_def log_msg_def Let_def fl_numeral)
  show ?thesis by (intro conjI h1 h2 h3 c e)
qed

text \<open>
  C4: a failover (a non-empty incoming pool that differs from the current pool and is not a
  return to the initial pool) always makes the incoming pool the current one and raises
  \<open>failover_count\<close> by one. When the failover cooldown is not satisfied, no event is
  reported, no alert is dispatched or posted and the failover timestamp stays; when it is
  satisfied, the event is reported, exactly one alert, the failover alert, is passed to
  \<^verbatim>\<open>send_slack_alert\<close>, and the failover timestamp becomes the next clock reading.
\<close>

theorem failover_cooldown_gate:
  assumes "pool \<noteq> []" and "pool \<noteq> last_pool self"
    and "\<not> (pool = initial_pool self \<and> last_pool self \<noteq> initial_pool self)"
  shows "case detect_failover pool self w of (r, self', w') \<Rightarrow>
           last_pool self' = pool
         \<and> failover_count self' = failover_count self + 1
         \<and> (if fst (check_cooldown self (last_failover_alert self) w)
              then r
                 \<and> dispatched w' = dispatched w @
                       [Failover_Detected (last_pool self) pool (total_requests self)
                          (failover_count self + 1)]
                 \<and> last_failover_alert self' = clock w (Suc (ticks w))
              else \<not> r
                 \<and> dispatched w' = dispatched w
                 \<and> posted w' = posted w
                 \<and> last_failover_alert self' = last_failover_alert self)"
  using assms by (auto simp: unfold_methods split: if_splits)

theorem failover_cooldown_gate_witness:
  "''green'' \<noteq> [] \<and> ''green'' \<noteq> last_pool blue_watcher
   \<and> \<not> (''green'' = initial_pool blue_watcher \<and> last_pool blue_watcher \<noteq> initial_pool blue_watcher)
   \<and> (case detect_failover ''green'' blue_watcher (world_at (\<lambda>n. 1000)) of (r, self', w') \<Rightarrow>
           last_pool self' = ''green''
         \<and> failover_count self' = failover_count blue_watcher + 1
         \<and> (if fst (check_cooldown blue_watcher (last_failover_alert blue_watcher)
                       (world_at (\<lambda>n. 1000)))
              then r
                 \<and> dispatched w' = dispatched (world_at (\<lambda>n. 1000)) @
                       [Failover_Detected (last_pool blue_watcher) ''green''
                          (total_requests blue_watcher) (failover_count blue_watcher + 1)]
                 \<and> last_failover_alert self' =
                     clock (world_at (\<lambda>n. 1000)) (Suc (ticks (world_at (\<lambda>n. 1000))))
              else \<not> r
                 \<and> dispatched w' = dispatched (world_at (\<lambda>n. 1000))
                 \<and> posted w' = posted (world_at (\<lambda>n. 1000))
                 \<and> last_failover_alert self' = last_failover_alert blue_watcher))
   \<and> posted (snd (snd (detect_failover ''green'' blue_watcher (world_at (\<lambda>n. 1000)))))
       = [Failover_Detected ''blue'' ''green'' 0 1]"
proof -
  have h1: "''green'' \<noteq> []" by simp
  have h2: "''green'' \<noteq> last_pool blue_watcher"
    by (simp add: blue_watcher_def init_watcher_def)
  have h3: "\<not> (''green'' = initial_pool blue_watcher
               \<and> last_pool blue_watcher \<noteq> initial_pool blue_watcher)"
    by (simp add: blue_watcher_def init_watcher_def)
  note c = failover_cooldown_gate [OF h1 h2 h3, of "world_at (\<lambda>n. 1000)"]
  have e: "posted (snd (snd (detect_failover ''green'' blue_watcher (world_at (\<lambda>n. 1000)))))
             = [Failover_Detected ''blue'' ''green'' 0 1]"
    by (simp add: example_defs detect_failover_def check_cooldown_eq time_time_def
        send_slack_alert_def log_msg_def Let_def fl_numeral)
  show ?thesis by (intro conjI h1 h2 h3 c e)
qed

section \<open>Cooldowns\<close>















text \<open>
  C6: pool recovery and recovery from a high error rate read and stamp the one timestamp
  \<open>last_recovery_alert\<close>. When one of them has fired, the timestamp is the clock reading
  of its stamp; as long as nothing else stamps it, the other one, when it comes due, fires
  exactly if the time elapsed since that reading, as \<^verbatim>\<open>check_cooldown\<close> computes it,
  has reached \<open>alert_cooldown_sec\<close>, and otherwise dispatches and posts nothing.
\<close>

theorem recovery_alerts_share_cooldown:
  "(pool \<noteq> [] \<and> pool = initial_pool self \<and> last_pool self \<noteq> initial_pool self
      \<and> fst (check_cooldown self (last_recovery_alert self) w)
      \<and> last_recovery_alert self2 = last_recovery_alert (fst (snd (detect_failover pool self w)))
      \<and> min 50 (window_size self2) \<le> int (length (request_window self2))
      \<and> \<not> error_rate_threshold self2 < calculate_error_rate self2
      \<and> system_degraded self2
    \<longrightarrow> last_recovery_alert self2 = clock w (Suc (ticks w))
      \<and> (case check_error_rate self2 w2 of (r, self', w') \<Rightarrow>
             r = (of_int (alert_cooldown_sec self2)
                    \<le> fl (clock w2 (ticks w2) - clock w (Suc (ticks w))))
           \<and> (\<not> r \<longrightarrow> dispatched w' = dispatched w2 \<and> posted w' = posted w2
                      \<and> system_degraded self')))
 \<and> (min 50 (window_size self) \<le> int (length (request_window self))
      \<and> \<not> error_rate_threshold self < calculate_error_rate self
      \<and> system_degraded self
      \<and> fst (check_cooldown self (last_recovery_alert self) w)
      \<and> last_recovery_alert self2 = last_recovery_alert (fst (snd (check_error_rate self w)))
      \<and> pool \<noteq> [] \<and> pool = initial_pool self2 \<and> last_pool self2 \<noteq> initial_pool self2
    \<longrightarrow> last_recovery_alert self2 = clock w (Suc (ticks w))
      \<and> (case detect_failover pool self2 w2 of (r, self', w') \<Rightarrow>
             r = (of_int (alert_cooldown_sec self2)
                    \<le> fl (clock w2 (ticks w2) - clock w (Suc (ticks w))))
           \<and> (\<not> r \<longrightarrow> dispatched w' = dispatched w2 \<and> posted w' = posted w2)))"
  by (auto simp: unfold_methods min_def split: if_splits)

theorem recovery_alerts_share_cooldown_witness:
  "((''blue'' \<noteq> [] \<and> ''blue'' = initial_pool backup_watcher
      \<and> last_pool backup_watcher \<noteq> initial_pool backup_watcher
      \<and> fst (check_cooldown backup_watcher (last_recovery_alert backup_watcher)
             (world_at (\<lambda>n. 1000)))
      \<and> last_recovery_alert (degraded_watcher\<lparr>last_recovery_alert := 1000\<rparr>)
          = last_recovery_alert
              (fst (snd (detect_failover ''blue'' backup_watcher (world_at (\<lambda>n. 1000)))))
      \<and> min 50 (window_size (degraded_watcher\<lparr>last_recovery_alert := 1000\<rparr>))
          \<le> int (length (request_window (degraded_watcher\<lparr>last_recovery_alert := 1000\<rparr>)))
      \<and> \<not> error_rate_threshold (degraded_watcher\<lparr>last_recovery_alert := 1000\<rparr>)
            < calculate_error_rate (degraded_watcher\<lparr>last_recovery_alert := 1000\<rparr>)
      \<and> system_degraded (degraded_watcher\<lparr>last_recovery_alert := 1000\<rparr>))
    \<and> (last_recovery_alert (degraded_watcher\<lparr>last_recovery_alert := 1000\<rparr>)
          = clock (world_at (\<lambda>n. 1000)) (Suc (ticks (world_at (\<lambda>n. 1000))))
      \<and> (case check_error_rate (degraded_watcher\<lparr>last_recovery_alert := 1000\<rparr>)
                 (world_at (\<lambda>n. 1100)) of (r, self', w') \<Rightarrow>
             r = (of_int (alert_cooldown_sec (degraded_watcher\<lparr>last_recovery_alert := 1000\<rparr>))
                    \<le> fl (clock (world_at (\<lambda>n. 1100)) (ticks (world_at (\<lambda>n. 1100)))
                           - clock (world_at (\<lambda>n. 1000)) (Suc (ticks (world_at (\<lambda>n. 1000))))))
           \<and> (\<not> r \<longrightarrow> dispatched w' = dispatched (world_at (\<lambda>n. 1100))
                      \<and> posted w' = posted (world_at (\<lambda>n. 1100))
                      \<and> system_degraded self'))))
 \<and> ((min 50 (window_size degraded_watcher) \<le> int (length (request_window degraded_watcher))
      \<and> \<not> error_rate_threshold degraded_watcher < calculate_error_rate degraded_watcher
      \<and> system_degraded degraded_watcher
      \<and> fst (check_cooldown degraded_watcher (last_recovery_alert degraded_watcher)
             (world_at (\<lambda>n. 1000)))
      \<and> last_recovery_alert (backup_watcher\<lparr>last_recovery_alert := 1000\<rparr>)
          = last_recovery_alert
              (fst (snd (check_error_rate degraded_watcher (world_at (\<lambda>n. 1000)))))
      \<and> ''blue'' \<noteq> []
      \<and> ''blue'' = initial_pool (backup_watcher\<lparr>last_recovery_alert := 1000\<rparr>)
      \<and> last_pool (backup_watcher\<lparr>last_recovery_alert := 1000\<rparr>)
          \<noteq> initial_pool (backup_watcher\<lparr>last_recovery_alert := 1000\<rparr>))
    \<and> (last_recovery_alert (backup_watcher\<lparr>last_recovery_alert := 1000\<rparr>)
          = clock (world_at (\<lambda>n. 1000)) (Suc (ticks (world_at (\<lambda>n. 1000))))
      \<and> (case detect_failover ''blue'' (backup_watcher\<lparr>last_recovery_alert := 1000\<rparr>)
                 (world_at (\<lambda>n. 1100)) of (r, self', w') \<Rightarrow>
             r = (of_int (alert_cooldown_sec (backup_watcher\<lparr>last_recovery_alert := 1000\<rparr>))
                    \<le> fl (clock (world_at (\<lambda>n. 1100)) (ticks (world_at (\<lambda>n. 1100)))
                           - clock (world_at (\<lambda>n. 1000)) (Suc (ticks (world_at (\<lambda>n. 1000))))))
           \<and> (\<not> r \<longrightarrow> dispatched w' = dispatched (world_at (\<lambda>n. 1100))
                      \<and> posted w' = posted (world_at (\<lambda>n. 1100))))))"
  (is "(?A1 \<and> ?C1) \<and> (?A2 \<and> ?C2)")
proof -
  have r1: "calculate_error_rate (degraded_watcher\<lparr>last_recovery_alert := 1000\<rparr>) = 0"
    by (simp add: calculate_error_rate_def example_defs fl_zero)
  have a1: ?A1 unfolding r1
    by (simp add: example_defs unfold_methods fl_numeral)
  have a2: ?A2 unfolding calculate_error_rate_examples
    by (simp add: example_defs unfold_methods fl_numeral calculate_error_rate_def fl_zero)
  have c1: ?C1
    by (rule recovery_alerts_share_cooldown [THEN conjunct1, THEN mp, OF a1])
  have c2: ?C2
    by (rule recovery_alerts_share_cooldown [THEN conjunct2, THEN mp, OF a2])
  show ?thesis by (rule conjI [OF conjI [OF a1 c1] conjI [OF a2 c2]])
qed

section \<open>Degradation episodes\<close>

lemma first_episode_eq:
  "first_episode =
     (episode_watcher\<lparr>request_window := [200], last_error_rate_alert := 1001,
        last_recovery_alert := 1003, total_requests := 2\<rparr>,
      episode_world\<lparr>ticks := 4,
        posted := [High_Error_Rate 100 2 1 1 ''blue'' 1, System_Recovery ''blue'' 0 2 2 0],
        console := [Log_Slack_Sent (High_Error_Rate 100 2 1 1 ''blue'' 1),
                    Log_Slack_Sent (System_Recovery ''blue'' 0 2 2 0)]\<rparr>)"
  by (simp add: first_episode_def run_defs detect_failover_def check_error_rate_def
      check_cooldown_eq time_time_def send_slack_alert_def log_msg_def Let_def
      episode_watcher_def episode_world_def example_defs
      string_eval fl_numeral fl_one fl_zero)

lemma second_onset_eq:
  "second_onset =
     (episode_watcher\<lparr>request_window := [502], last_error_rate_alert := 1001,
        last_recovery_alert := 1003, total_requests := 3\<rparr>,
      episode_world\<lparr>ticks := 5,
        posted := [High_Error_Rate 100 2 1 1 ''blue'' 1, System_Recovery ''blue'' 0 2 2 0],
        console := [Log_Slack_Sent (High_Error_Rate 100 2 1 1 ''blue'' 1),
                    Log_Slack_Sent (System_Recovery ''blue'' 0 2 2 0)]\<rparr>)"
  by (simp add: second_onset_def first_episode_eq run_defs detect_failover_def check_error_rate_def
      check_cooldown_eq time_time_def send_slack_alert_def log_msg_def Let_def
      episode_watcher_def episode_world_def example_defs
      string_eval fl_numeral fl_one fl_zero)

lemma second_clear_eq:
  "second_clear =
     (episode_watcher\<lparr>request_window := [200], last_error_rate_alert := 1001,
        last_recovery_alert := 1003, total_requests := 4\<rparr>,
      episode_world\<lparr>ticks := 5,
        posted := [High_Error_Rate 100 2 1 1 ''blue'' 1, System_Recovery ''blue'' 0 2 2 0],
        console := [Log_Slack_Sent (High_Error_Rate 100 2 1 1 ''blue'' 1),
                    Log_Slack_Sent (System_Recovery ''blue'' 0 2 2 0)]\<rparr>)"
  by (simp add: second_clear_def second_onset_eq run_defs detect_failover_def check_error_rate_def
      check_cooldown_eq time_time_def send_slack_alert_def log_msg_def Let_def
      episode_watcher_def episode_world_def example_defs
      string_eval fl_numeral fl_one fl_zero)

text \<open>
  C9: when the error rate is above the threshold with the minimum sample count met and the
  error-rate cooldown check fails, \<^verbatim>\<open>check_error_rate\<close> changes nothing but the clock
  reading count, so the degraded flag is not set; and whenever the flag is not set and the
  rate is at or below the threshold, \<^verbatim>\<open>check_error_rate\<close> does nothing at all. So an
  episode can pass without an alert: in the run of four lines above, the third line brings
  the rate above the threshold and the fourth brings it back, and neither dispatches, posts
  or prints anything beyond what the first episode did.
\<close>

theorem suppressed_onset_hides_episode:
  "(min 50 (window_size self) \<le> int (length (request_window self))
      \<and> error_rate_threshold self < calculate_error_rate self
      \<and> \<not> fst (check_cooldown self (last_error_rate_alert self) w)
    \<longrightarrow> check_error_rate self w = (False, self, w\<lparr>ticks := Suc (ticks w)\<rparr>))
 \<and> (\<not> system_degraded self \<and> \<not> error_rate_threshold self < calculate_error_rate self
    \<longrightarrow> check_error_rate self w = (False, self, w))
 \<and> (\<not> system_degraded (fst first_episode)
      \<and> min 50 (window_size (fst second_onset)) \<le> int (length (request_window (fst second_onset)))
      \<and> error_rate_threshold (fst second_onset) < calculate_error_rate (fst second_onset)
      \<and> \<not> system_degraded (fst second_onset)
      \<and> dispatched (snd second_onset) = dispatched (snd first_episode)
      \<and> \<not> error_rate_threshold (fst second_clear) < calculate_error_rate (fst second_clear)
      \<and> dispatched (snd second_clear) = dispatched (snd first_episode)
      \<and> console (snd second_clear) = console (snd first_episode)
      \<and> posted (snd second_clear) = posted (snd first_episode))"
proof (intro conjI impI)
  show "\<not> system_degraded (fst first_episode)"
    by (simp add: first_episode_eq episode_watcher_def init_watcher_def)
  show "min 50 (window_size (fst second_onset)) \<le> int (length (request_window (fst second_onset)))"
    by (simp add: second_onset_eq episode_watcher_def init_watcher_def)
  show "error_rate_threshold (fst second_onset) < calculate_error_rate (fst second_onset)"
    by (simp add: second_onset_eq episode_watcher_def init_watcher_def calculate_error_rate_def
        fl_one fl_numeral)
  show "\<not> system_degraded (fst second_onset)"
    by (simp add: second_onset_eq episode_watcher_def init_watcher_def)
  show "\<not> error_rate_threshold (fst second_clear) < calculate_error_rate (fst second_clear)"
    by (simp add: second_clear_eq episode_watcher_def init_watcher_def calculate_error_rate_def
        fl_zero)
  show "dispatched (snd second_onset) = dispatched (snd first_episode)"
    by (simp add: second_onset_eq first_episode_eq dispatched_def)
  show "dispatched (snd second_clear) = dispatched (snd first_episode)"
    by (simp add: second_clear_eq first_episode_eq dispatched_def)
  show "console (snd second_clear) = console (snd first_episode)"
    by (simp add: second_clear_eq first_episode_eq)
  show "posted (snd second_clear) = posted (snd first_episode)"
    by (simp add: second_clear_eq first_episode_eq)
qed (auto simp: unfold_methods min_def split: if_splits)

theorem suppressed_onset_hides_episode_witness:
  "((min 50 (window_size (failing_watcher\<lparr>last_error_rate_alert := 900\<rparr>))
        \<le> int (length (request_window (failing_watcher\<lparr>last_error_rate_alert := 900\<rparr>)))
      \<and> error_rate_threshold (failing_watcher\<lparr>last_error_rate_alert := 900\<rparr>)
          < calculate_error_rate (failing_watcher\<lparr>last_error_rate_alert := 900\<rparr>)
      \<and> \<not> fst (check_cooldown (failing_watcher\<lparr>last_error_rate_alert := 900\<rparr>)
                 (last_error_rate_alert (failing_watcher\<lparr>last_error_rate_alert := 900\<rparr>))
                 (world_at (\<lambda>n. 1000))))
    \<and> check_error_rate (failing_watcher\<lparr>last_error_rate_alert := 900\<rparr>) (world_at (\<lambda>n. 1000))
        = (False, failing_watcher\<lparr>last_error_rate_alert := 900\<rparr>,
           (world_at (\<lambda>n. 1000))\<lparr>ticks := Suc (ticks (world_at (\<lambda>n. 1000)))\<rparr>))
 \<and> ((\<not> system_degraded (degraded_watcher\<lparr>system_degraded := False\<rparr>)
      \<and> \<not> error_rate_threshold (degraded_watcher\<lparr>system_degraded := False\<rparr>)
            < calculate_error_rate (degraded_watcher\<lparr>system_degraded := False\<rparr>))
    \<and> check_error_rate (degraded_watcher\<lparr>system_degraded := False\<rparr>) (world_at (\<lambda>n. 1000))
        = (False, degraded_watcher\<lparr>system_degraded := False\<rparr>, world_at (\<lambda>n. 1000)))"
  (is "(?A1 \<and> ?C1) \<and> (?A2 \<and> ?C2)")
proof -
  have r1: "calculate_error_rate (failing_watcher\<lparr>last_error_rate_alert := 900\<rparr>) = 100"
    by (simp add: calculate_error_rate_def example_defs fl_one fl_numeral)
  have r2: "calculate_error_rate (degraded_watcher\<lparr>system_degraded := False\<rparr>) = 0"
    by (simp add: calculate_error_rate_def example_defs fl_zero)
  have a1: ?A1 unfolding r1 by (simp add: example_defs check_cooldown_eq fl_numeral)
  have a2: ?A2 unfolding r2 by (simp add: example_defs)
  have c1: ?C1
    by (rule suppressed_onset_hides_episode [THEN conjunct1, THEN mp, OF a1])
  have c2: ?C2
    by (rule suppressed_onset_hides_episode [THEN conjunct2, THEN conjunct1, THEN mp, OF a2])
  show ?thesis by (rule conjI [OF conjI [OF a1 c1] conjI [OF a2 c2]])
qed

section \<open>Maintenance mode\<close>

text \<open>
  C1, as the claim states it, fails: a pool recovery that passes its cooldown check in
  maintenance mode posts its alert to the webhook.
\<close>

theorem maintenance_recovery_alert_counterexample:
  "maintenance_mode maintenance_watcher
   \<and> fst (check_cooldown maintenance_watcher (last_recovery_alert maintenance_watcher) world_1000)
   \<and> posted (snd (snd (detect_failover ''blue'' maintenance_watcher world_1000)))
       = [Pool_Recovery ''backup'' ''blue'' 0 1]
   \<and> console (snd (snd (detect_failover ''blue'' maintenance_watcher world_1000)))
       = [Log_Auto_Disable_Maintenance, Log_Slack_Sent (Pool_Recovery ''backup'' ''blue'' 0 1)]"
  by (simp add: maintenance_watcher_def world_1000_def example_defs detect_failover_def
      check_cooldown_eq time_time_def send_slack_alert_def log_msg_def Let_def fl_numeral)

text \<open>
  C1, amended: a recovery event (pool recovery in \<^verbatim>\<open>detect_failover\<close>, recovery from a
  high error rate in \<^verbatim>\<open>check_error_rate\<close>) that passes its cooldown check while
  \<open>maintenance_mode\<close> is set clears \<open>maintenance_mode\<close> before it sends its alert, so the
  alert is not suppressed: it is posted to the webhook when a URL is configured and printed
  on the console otherwise.
\<close>

theorem maintenance_cleared_before_recovery_alert:
  "(pool \<noteq> [] \<and> pool = initial_pool self \<and> last_pool self \<noteq> initial_pool self
      \<and> maintenance_mode self
      \<and> fst (check_cooldown self (last_recovery_alert self) w)
    \<longrightarrow> (case detect_failover pool self w of (r, self', w') \<Rightarrow>
           let a = Pool_Recovery (last_pool self) pool (total_requests self)
                     (failover_count self + 1)
           in r \<and> \<not> maintenance_mode self'
            \<and> dispatched w' = dispatched w @ [a]
            \<and> console w' = console w @
                  [Log_Auto_Disable_Maintenance,
                   if slack_webhook_url self = None \<or> slack_webhook_url self = Some []
                   then Log_Alert a
                   else if post_ok w (length (posted w)) then Log_Slack_Sent a
                   else Log_Slack_Failed a]
            \<and> posted w' =
                  (if slack_webhook_url self = None \<or> slack_webhook_url self = Some []
                   then posted w else posted w @ [a])))
 \<and> (min 50 (window_size self) \<le> int (length (request_window self))
      \<and> \<not> error_rate_threshold self < calculate_error_rate self
      \<and> system_degraded self
      \<and> maintenance_mode self
      \<and> fst (check_cooldown self (last_recovery_alert self) w)
    \<longrightarrow> (case check_error_rate self w of (r, self', w') \<Rightarrow>
           let a = System_Recovery (last_pool self) (calculate_error_rate self)
                     (error_rate_threshold self) (total_requests self) (failover_count self)
           in r \<and> \<not> maintenance_mode self'
            \<and> dispatched w' = dispatched w @ [a]
            \<and> console w' = console w @
                  [Log_Auto_Disable_Maintenance,
                   if slack_webhook_url self = None \<or> slack_webhook_url self = Some []
                   then Log_Alert a
                   else if post_ok w (length (posted w)) then Log_Slack_Sent a
                   else Log_Slack_Failed a]
            \<and> posted w' =
                  (if slack_webhook_url self = None \<or> slack_webhook_url self = Some []
                   then posted w else posted w @ [a])))"
  by (auto simp: unfold_methods min_def split: if_splits)

theorem maintenance_cleared_before_recovery_alert_witness:
  "((''blue'' \<noteq> [] \<and> ''blue'' = initial_pool maintenance_watcher
      \<and> last_pool maintenance_watcher \<noteq> initial_pool maintenance_watcher
      \<and> maintenance_mode maintenance_watcher
      \<and> fst (check_cooldown maintenance_watcher (last_recovery_alert maintenance_watcher)
             world_1000))
    \<and> (case detect_failover ''blue'' maintenance_watcher world_1000 of (r, self', w') \<Rightarrow>
           let a = Pool_Recovery (last_pool maintenance_watcher) ''blue''
                     (total_requests maintenance_watcher)
                     (failover_count maintenance_watcher + 1)
           in r \<and> \<not> maintenance_mode self'
            \<and> dispatched w' = dispatched world_1000 @ [a]
            \<and> console w' = console world_1000 @
                  [Log_Auto_Disable_Maintenance,
                   if slack_webhook_url maintenance_watcher = None
                      \<or> slack_webhook_url maintenance_watcher = Some []
                   then Log_Alert a
                   else if post_ok world_1000 (length (posted world_1000)) then Log_Slack_Sent a
                   else Log_Slack_Failed a]
            \<and> posted w' =
                  (if slack_webhook_url maintenance_watcher = None
                      \<or> slack_webhook_url maintenance_watcher = Some []
                   then posted world_1000 else posted world_1000 @ [a])))
 \<and> ((min 50 (window_size (degraded_watcher\<lparr>maintenance_mode := True\<rparr>))
        \<le> int (length (request_window (degraded_watcher\<lparr>maintenance_mode := True\<rparr>)))
      \<and> \<not> error_rate_threshold (degraded_watcher\<lparr>maintenance_mode := True\<rparr>)
            < calculate_error_rate (degraded_watcher\<lparr>maintenance_mode := True\<rparr>)
      \<and> system_degraded (degraded_watcher\<lparr>maintenance_mode := True\<rparr>)
      \<and> maintenance_mode (degraded_watcher\<lparr>maintenance_mode := True\<rparr>)
      \<and> fst (check_cooldown (degraded_watcher\<lparr>maintenance_mode := True\<rparr>)
             (last_recovery_alert (degraded_watcher\<lparr>maintenance_mode := True\<rparr>))
             world_1000))
    \<and> (case check_error_rate (degraded_watcher\<lparr>maintenance_mode := True\<rparr>) world_1000
          of (r, self', w') \<Rightarrow>
           let a = System_Recovery (last_pool (degraded_watcher\<lparr>maintenance_mode := True\<rparr>))
                     (calculate_error_rate (degraded_watcher\<lparr>maintenance_mode := True\<rparr>))
                     (error_rate_threshold (degraded_watcher\<lparr>maintenance_mode := True\<rparr>))
                     (total_requests (degraded_watcher\<lparr>maintenance_mode := True\<rparr>))
                     (failover_count (degraded_watcher\<lparr>maintenance_mode := True\<rparr>))
           in r \<and> \<not> maintenance_mode self'
            \<and> dispatched w' = dispatched world_1000 @ [a]
            \<and> console w' = console world_1000 @
                  [Log_Auto_Disable_Maintenance,
                   if slack_webhook_url (degraded_watcher\<lparr>maintenance_mode := True\<rparr>) = None
                      \<or> slack_webhook_url (degraded_watcher\<lparr>maintenance_mode := True\<rparr>)
                          = Some []
                   then Log_Alert a
                   else if post_ok world_1000 (length (posted world_1000)) then Log_Slack_Sent a
                   else Log_Slack_Failed a]
            \<and> posted w' =
                  (if slack_webhook_url (degraded_watcher\<lparr>maintenance_mode := True\<rparr>) = None
                      \<or> slack_webhook_url (degraded_watcher\<lparr>maintenance_mode := True\<rparr>)
                          = Some []
                   then posted world_1000 else posted world_1000 @ [a])))"
  (is "(?A1 \<and> ?C1) \<and> (?A2 \<and> ?C2)")
proof -
  have r2: "calculate_error_rate (degraded_watcher\<lparr>maintenance_mode := True\<rparr>) = 0"
    by (simp add: calculate_error_rate_def example_defs fl_zero)
  have a1: ?A1
    by (simp add: maintenance_watcher_def world_1000_def example_defs check_cooldown_eq fl_numeral)
  have a2: ?A2 unfolding r2
    by (simp add: world_1000_def example_defs check_cooldown_eq fl_numeral)
  have c1: ?C1
    by (rule maintenance_cleared_before_recovery_alert [THEN conjunct1, THEN mp, OF a1])
  have c2: ?C2
    by (rule maintenance_cleared_before_recovery_alert [THEN conjunct2, THEN mp, OF a2])
  show ?thesis by (rule conjI [OF conjI [OF a1 c1] conjI [OF a2 c2]])
qed

section \<open>Classifying a record\<close>

lemma dropWhile_keeps: "x \<in> set xs \<Longrightarrow> \<not> P x \<Longrightarrow> x \<in> set (dropWhile P xs)"
  by (induction xs) auto

lemma strip_keeps: "x \<in> set s \<Longrightarrow> \<not> is_space x \<Longrightarrow> x \<in> set (strip s)"
  unfolding strip_def by (simp add: dropWhile_keeps)

lemma dropWhile_rev_strip: "dropWhile is_space (strip s) = strip s"
proof -
  define t where "t = dropWhile is_space s"
  define u where "u = rev (dropWhile is_space (rev t))"
  have t: "t = [] \<or> \<not> is_space (hd t)"
    unfolding t_def by (metis hd_dropWhile)
  have "rev t = takeWhile is_space (rev t) @ dropWhile is_space (rev t)" by simp
  then have "t = u @ rev (takeWhile is_space (rev t))"
    unfolding u_def by (metis rev_append rev_rev_ident)
  then have "u = [] \<or> hd u = hd t" by (metis hd_append2)
  moreover have "t = [] \<longrightarrow> u = []" by (simp add: u_def)
  ultimately have "u = [] \<or> \<not> is_space (hd u)" using t by (cases u) auto
  then have "dropWhile is_space u = u" by (cases u) auto
  then show ?thesis by (simp add: strip_def t_def u_def)
qed

lemma strip_strip: "strip (strip s) = strip s"
proof -
  have "strip (strip s) = rev (dropWhile is_space (rev (strip s)))"
    by (simp add: dropWhile_rev_strip strip_def [of "strip s"])
  also have "rev (strip s) = dropWhile is_space (rev (dropWhile is_space s))"
    by (simp add: strip_def)
  finally show ?thesis by (simp add: strip_def)
qed

lemma py_int_strip: "py_int (strip s) = py_int s"
  by (simp add: py_int_def strip_strip)

lemma has_upstream_error_iff:
  "has_upstream_error toks \<longleftrightarrow> (\<exists>tok\<in>set toks. \<exists>n. py_int tok = Some n \<and> 500 \<le> n)"
  by (induction toks) (auto simp: py_int_strip split: option.splits)

lemma parse_digits_None:
  "c \<in> set cs \<Longrightarrow> \<not> is_digit c \<Longrightarrow> c \<noteq> CHR ''_'' \<Longrightarrow> parse_digits prev acc cs = None"
  by (induction cs arbitrary: prev acc) auto

lemma py_int_comma: 
  assumes "CHR '','' \<in> set s"
  shows "py_int s = None"
proof -
  have c: "\<not> is_space CHR '',''" "\<not> is_digit CHR '',''" by (simp_all add: is_space_def is_digit_def)
  from assms c(1) have m: "CHR '','' \<in> set (strip s)" by (rule strip_keeps)
  show ?thesis
  proof (cases "strip s")
    case Nil
    then show ?thesis by (simp add: py_int_def)
  next
    case (Cons a cs)
    with m have "a = CHR '','' \<or> CHR '','' \<in> set cs" by auto
    then show ?thesis
      using Cons c(2) parse_digits_None [of "CHR '',''" cs False 0]
        parse_digits_None [of "CHR '',''" "a # cs" False 0]
      by (auto simp: py_int_def)
  qed
qed

lemma split_comma_space_single:
  assumes "\<And>u v. s \<noteq> u @ '', '' @ v"
  shows "split_comma_space s = [s]"
  using assms
proof (induction s rule: split_comma_space.induct)
  case 1
  then show ?case by simp
next
  case (2 c)
  then show ?case by simp
next
  case (3 c d rest)
  have n: "\<not> (c = CHR '','' \<and> d = CHR '' '')"
    using 3(3) [of "[]" rest] by auto
  have "\<And>u v. d # rest \<noteq> u @ '', '' @ v"
  proof
    fix u v assume "d # rest = u @ '', '' @ v"
    then have "c # d # rest = (c # u) @ '', '' @ v" by simp
    with 3(3) show False by blast
  qed
  with 3(2) n have "split_comma_space (d # rest) = [d # rest]" by blast
  with n show ?case by simp
qed

lemma detect_failover_window:
  "request_window (fst (snd (detect_failover pool self w))) = request_window self"
  "window_size (fst (snd (detect_failover pool self w))) = window_size self"
  by (simp_all add: detect_failover_def Let_def case_prod_beta)

lemma check_error_rate_window:
  "request_window (fst (snd (check_error_rate self w))) = request_window self"
  "window_size (fst (snd (check_error_rate self w))) = window_size self"
  by (simp_all add: check_error_rate_def Let_def case_prod_beta)

lemma process_log_line_window:
  "request_window (fst (process_log_line (Some e) self w))
     = request_window (push_window self (effective_status e))"
  "window_size (fst (process_log_line line self w)) = window_size self"
  by (simp_all add: process_log_line_def Let_def case_prod_beta detect_failover_window
      check_error_rate_window push_window_def split: option.splits)

text \<open>
  C2: the outcome of a record is 502 exactly when some token of its \<open>upstream_status\<close>,
  cut at every comma followed by a space, is accepted by \<^verbatim>\<open>int\<close> with a value of 500
  or more, whatever its \<open>status\<close>; otherwise it is its \<open>status\<close>, or 0 when there is
  none. Tokens that \<^verbatim>\<open>int\<close> rejects do not count. This outcome is what
  \<^verbatim>\<open>process_log_line\<close> appends to the window before trimming it.
\<close>

theorem upstream_error_classification:
  "effective_status e =
     (if \<exists>tok\<in>set (split_comma_space (get_default (upstream_status_field e) [])).
           \<exists>n. py_int tok = Some n \<and> 500 \<le> n
      then 502 else get_default (status_field e) 0)
   \<and> request_window (fst (process_log_line (Some e) self w)) =
       (let window = request_window self @ [effective_status e]
        in if window_size self < int (length window)
           then slice_from (- window_size self) window else window)"
proof
  show "effective_status e =
     (if \<exists>tok\<in>set (split_comma_space (get_default (upstream_status_field e) [])).
           \<exists>n. py_int tok = Some n \<and> 500 \<le> n
      then 502 else get_default (status_field e) 0)"
  proof (cases "get_default (upstream_status_field e) [] = []")
    case True
    then show ?thesis by (simp add: effective_status_def py_int_def strip_def)
  next
    case False
    then show ?thesis by (simp add: effective_status_def has_upstream_error_iff)
  qed
  show "request_window (fst (process_log_line (Some e) self w)) =
       (let window = request_window self @ [effective_status e]
        in if window_size self < int (length window)
           then slice_from (- window_size self) window else window)"
    by (simp add: process_log_line_window push_window_def Let_def)
qed

theorem upstream_error_classification_witness:
  "(\<exists>tok\<in>set (split_comma_space (get_default (upstream_status_field retried_entry) [])).
      \<exists>n. py_int tok = Some n \<and> 500 \<le> n)
   \<and> effective_status retried_entry = 502
   \<and> request_window (fst (process_log_line (Some retried_entry) blue_watcher world_1000)) = [502]"
proof -
  have b: "\<exists>tok\<in>set (split_comma_space (get_default (upstream_status_field retried_entry) [])).
      \<exists>n. py_int tok = Some n \<and> 500 \<le> n"
    by (simp add: retried_entry_def get_default_def string_eval)
  note t = upstream_error_classification [of retried_entry blue_watcher world_1000]
  from t [THEN conjunct1] b have e: "effective_status retried_entry = 502"
    by (simp only: if_True)
  from t [THEN conjunct2] have "request_window (fst (process_log_line (Some retried_entry) blue_watcher world_1000)) = [502]"
    by (simp add: e example_defs Let_def)
  with b e show ?thesis by (simp only: simp_thms)
qed

text \<open>
  C10: when the \<open>upstream_status\<close> of a record contains a comma and no comma followed by
  a space, cutting it yields the whole string as the only token, \<^verbatim>\<open>int\<close> rejects that
  token, and the outcome is the record's own \<open>status\<close> (0 when there is none), whatever
  codes the string holds.
\<close>

theorem comma_without_space_is_one_token:
  assumes "upstream_status_field e = Some s" and "CHR '','' \<in> set s"
    and "\<And>u v. s \<noteq> u @ '', '' @ v"
  shows "split_comma_space s = [s] \<and> py_int (strip s) = None
       \<and> effective_status e = get_default (status_field e) 0"
proof -
  have 1: "split_comma_space s = [s]" using assms(3) by (rule split_comma_space_single)
  have 2: "py_int (strip s) = None" using assms(2) by (simp add: py_int_strip py_int_comma)
  have "s \<noteq> []" using assms(2) by auto
  with 1 2 assms(1) have "effective_status e = get_default (status_field e) 0"
    by (simp add: effective_status_def get_default_def)
  with 1 2 show ?thesis by simp
qed

theorem comma_without_space_is_one_token_witness:
  "upstream_status_field comma_entry = Some ''502,200'' \<and> CHR '','' \<in> set ''502,200''
   \<and> (\<forall>u v. ''502,200'' \<noteq> u @ '', '' @ v)
   \<and> (split_comma_space ''502,200'' = [''502,200''] \<and> py_int (strip ''502,200'') = None
       \<and> effective_status comma_entry = get_default (status_field comma_entry) 0)"
proof -
  have h1: "upstream_status_field comma_entry = Some ''502,200''" by (simp add: comma_entry_def)
  have h2: "CHR '','' \<in> set ''502,200''" by simp
  have h3: "''502,200'' \<noteq> u @ '', '' @ v" for u v
    by (auto simp: Cons_eq_append_conv)
  note c = comma_without_space_is_one_token [OF h1 h2 h3]
  from h3 have h3': "\<forall>u v. ''502,200'' \<noteq> u @ '', '' @ v" by blast
  show ?thesis by (rule conjI [OF h1 conjI [OF h2 conjI [OF h3' c]]])
qed

section \<open>The sliding window and the error rate\<close>

lemma last_n_length: "length (last_n n xs) \<le> n"
  by (simp add: last_n_def)

lemma last_n_short: "length xs \<le> n \<Longrightarrow> last_n n xs = xs"
  by (simp add: last_n_def)

lemma last_n_append: "last_n n (last_n n a @ b) = last_n n (a @ b)"
proof (cases "length a \<le> n")
  case True
  then show ?thesis by (simp add: last_n_def)
next
  case False
  then have "length a + length b - (length a - n + n) + (length a - n) = length a + length b - n"
    by arith
  with False show ?thesis by (simp add: last_n_def)
qed

lemma push_window_last_n:
  assumes "1 \<le> window_size self"
  shows "request_window (push_window self x)
           = last_n (nat (window_size self)) (request_window self @ [x])"
  using assms by (auto simp: push_window_def slice_from_def last_n_def Let_def nat_diff_distrib
      intro!: arg_cong [where f = "\<lambda>n. drop n _"])

lemma outcomes_simps:
  "outcomes [] = []"
  "outcomes (None # lines) = outcomes lines"
  "outcomes (Some e # lines) = effective_status e # outcomes lines"
  by (simp_all add: outcomes_def List.map_filter_simps)

lemma process_lines_window:
  assumes "1 \<le> window_size self" and "int (length (request_window self)) \<le> window_size self"
  shows "request_window (fst (process_lines lines self w))
           = last_n (nat (window_size self)) (request_window self @ outcomes lines)"
  using assms
proof (induction lines arbitrary: self w)
  case Nil
  then show ?case by (simp add: outcomes_simps last_n_short)
next
  case (Cons line lines)
  obtain self1 w1 where p: "process_log_line line self w = (self1, w1)"
    by (cases "process_log_line line self w")
  have ws: "window_size self1 = window_size self"
    using process_log_line_window(2) [of line self w] p by simp
  show ?case
  proof (cases line)
    case None
    with p have "self1 = self" by (simp add: process_log_line_def)
    with Cons.IH [of self w1] Cons.prems p None show ?thesis
      by (simp add: outcomes_simps)
  next
    case (Some e)
    have w1: "request_window self1
                = last_n (nat (window_size self)) (request_window self @ [effective_status e])"
      using process_log_line_window(1) [of e self w] p Some Cons.prems(1)
      by (simp add: push_window_last_n)
    then have "int (length (request_window self1)) \<le> window_size self1"
      using last_n_length [of "nat (window_size self)" "request_window self @ [effective_status e]"]
        Cons.prems(1) ws by simp
    with Cons.IH [of self1 w1] Cons.prems(1) ws
    have "request_window (fst (process_lines lines self1 w1))
            = last_n (nat (window_size self)) (request_window self1 @ outcomes lines)"
      by simp
    then show ?thesis
      using p Some by (simp add: w1 last_n_append outcomes_simps)
  qed
qed

lemma count_errors_eq:
  "count_errors ws acc = acc + int (length (filter (\<lambda>s. 500 \<le> s) ws))"
  by (induction ws arbitrary: acc) auto

lemma seven_percent_rate:
  "calculate_error_rate seven_percent_watcher = 7881299347898369 / 1125899906842624"
proof -
  have "calculate_error_rate seven_percent_watcher = fl (fl (7 / 100) * 100)"
    by (simp add: calculate_error_rate_def seven_percent_watcher_def count_errors_eq)
  then show ?thesis by (simp only: fl_seven_hundredths fl_seven_hundredths_100)
qed

text \<open>
  C8, as the claim states it, fails in its last part: with 7 errors among 100 outcomes the
  error rate is not \<open>100 * 7 / 100\<close> but the next double above 7, so a watcher whose
  threshold is 7 reports a high error rate.
\<close>

theorem error_rate_exact_counterexample:
  "count_errors (request_window seven_percent_watcher) 0 = 7
   \<and> length (request_window seven_percent_watcher) = 100
   \<and> calculate_error_rate seven_percent_watcher \<noteq> 100 * 7 / 100
   \<and> error_rate_threshold seven_percent_watcher = 100 * 7 / 100
   \<and> fst (check_error_rate seven_percent_watcher world_1000)"
proof -
  have 1: "count_errors (request_window seven_percent_watcher) 0 = 7"
    by (simp add: seven_percent_watcher_def count_errors_eq)
  have 2: "length (request_window seven_percent_watcher) = 100"
    by (simp add: seven_percent_watcher_def)
  have 3: "calculate_error_rate seven_percent_watcher \<noteq> 100 * 7 / 100"
    unfolding seven_percent_rate by simp
  have 4: "error_rate_threshold seven_percent_watcher = 100 * 7 / 100"
    by (simp add: seven_percent_watcher_def)
  have 5: "fst (check_error_rate seven_percent_watcher world_1000)"
    unfolding check_error_rate_def seven_percent_rate
    by (simp add: seven_percent_watcher_def world_1000_def example_defs check_cooldown_eq
        time_time_def Let_def case_prod_beta fl_numeral)
  from 1 2 3 4 5 show ?thesis by (simp only: simp_thms)
qed

text \<open>
  C8, amended: for a window size of at least 1 and a window that is not longer than it (the
  empty one of a new watcher, for one), after any sequence of lines the window is not longer
  than \<open>window_size\<close> and holds the last \<open>window_size\<close> outcomes pushed, in arrival order
  (all of them while there are fewer). The error rate of the empty window is 0; on a window
  where \<open>k\<close> of \<open>n\<close> outcomes are 500 or more it is \<open>k / n\<close> rounded to a double,
  times 100, rounded to a double, which differs from \<open>100 * k / n\<close> by at most
  \<open>100 * k / n / 2^51\<close> (so it is 0 when \<open>k = 0\<close>).
\<close>

theorem window_and_error_rate:
  "(1 \<le> window_size self \<and> int (length (request_window self)) \<le> window_size self
    \<longrightarrow> (case process_lines lines self w of (self', w') \<Rightarrow>
           int (length (request_window self')) \<le> window_size self
         \<and> request_window self'
             = last_n (nat (window_size self)) (request_window self @ outcomes lines)))
 \<and> (request_window self = [] \<longrightarrow> calculate_error_rate self = 0)
 \<and> (request_window self \<noteq> []
    \<longrightarrow> (let k = length (filter (\<lambda>s. 500 \<le> s) (request_window self));
             n = length (request_window self)
         in calculate_error_rate self = fl (fl (of_nat k / of_nat n) * 100)
          \<and> \<bar>calculate_error_rate self - 100 * of_nat k / of_nat n\<bar>
              \<le> 100 * of_nat k / of_nat n / 2 ^ 51))"
proof (intro conjI impI)
  assume a: "1 \<le> window_size self \<and> int (length (request_window self)) \<le> window_size self"
  then have w: "request_window (fst (process_lines lines self w))
           = last_n (nat (window_size self)) (request_window self @ outcomes lines)"
    by (simp add: process_lines_window)
  have "int (length (request_window (fst (process_lines lines self w)))) \<le> window_size self"
    unfolding w
    using last_n_length [of "nat (window_size self)" "request_window self @ outcomes lines"] a
    by linarith
  with w show "case process_lines lines self w of (self', w') \<Rightarrow>
           int (length (request_window self')) \<le> window_size self
         \<and> request_window self'
             = last_n (nat (window_size self)) (request_window self @ outcomes lines)"
    by (simp add: case_prod_beta)
next
  assume "request_window self = []"
  then show "calculate_error_rate self = 0" by (simp add: calculate_error_rate_def)
next
  assume ne: "request_window self \<noteq> []"
  define k where "k = length (filter (\<lambda>s. 500 \<le> s) (request_window self))"
  define n where "n = length (request_window self)"
  have r: "calculate_error_rate self = fl (fl (of_nat k / of_nat n) * 100)"
    using ne by (simp add: calculate_error_rate_def count_errors_eq k_def n_def)
  have "(0::rat) \<le> of_nat k / of_nat n" by simp
  from fl_two_steps [OF this]
  have "\<bar>calculate_error_rate self - 100 * of_nat k / of_nat n\<bar>
              \<le> 100 * of_nat k / of_nat n / 2 ^ 51"
    by (simp add: r)
  with r show "let k = length (filter (\<lambda>s. 500 \<le> s) (request_window self));
             n = length (request_window self)
         in calculate_error_rate self = fl (fl (of_nat k / of_nat n) * 100)
          \<and> \<bar>calculate_error_rate self - 100 * of_nat k / of_nat n\<bar>
              \<le> 100 * of_nat k / of_nat n / 2 ^ 51"
    by (simp add: k_def n_def Let_def)
qed

theorem window_and_error_rate_witness:
  "((1 \<le> window_size small_watcher
      \<and> int (length (request_window small_watcher)) \<le> window_size small_watcher)
    \<and> (case process_lines [error_line, ok_line, ok_line] small_watcher world_1000
          of (self', w') \<Rightarrow>
           int (length (request_window self')) \<le> window_size small_watcher
         \<and> request_window self'
             = last_n (nat (window_size small_watcher))
                 (request_window small_watcher @ outcomes [error_line, ok_line, ok_line])))
 \<and> (request_window blue_watcher = [] \<and> calculate_error_rate blue_watcher = 0)
 \<and> (request_window seven_percent_watcher \<noteq> []
    \<and> (let k = length (filter (\<lambda>s. 500 \<le> s) (request_window seven_percent_watcher));
           n = length (request_window seven_percent_watcher)
       in calculate_error_rate seven_percent_watcher = fl (fl (of_nat k / of_nat n) * 100)
        \<and> \<bar>calculate_error_rate seven_percent_watcher - 100 * of_nat k / of_nat n\<bar>
            \<le> 100 * of_nat k / of_nat n / 2 ^ 51))"
  (is "(?A1 \<and> ?C1) \<and> (?A2 \<and> ?C2) \<and> (?A3 \<and> ?C3)")
proof -
  have a1: ?A1 by (simp add: small_watcher_def example_defs)
  have a2: ?A2 by (simp add: example_defs)
  have a3: ?A3 by (simp add: seven_percent_watcher_def)
  have c1: ?C1 by (rule window_and_error_rate [THEN conjunct1, THEN mp, OF a1])
  have c2: ?C2 by (rule window_and_error_rate [THEN conjunct2, THEN conjunct1, THEN mp, OF a2])
  have c3: ?C3 by (rule window_and_error_rate [THEN conjunct2, THEN conjunct2, THEN mp, OF a3])
  show ?thesis by (rule conjI [OF conjI [OF a1 c1] conjI [OF conjI [OF a2 c2] conjI [OF a3 c3]]])
qed

end
